theory Spec2Isabelle
  imports Complex_Main "HOL-Library.Sublist" "HOL-Library.Product_Lexorder" "HOL-Library.Multiset"
begin

section \<open>Python values used by the lien engine\<close>

text \<open>
  The embedded code is \<^verbatim>\<open>src/integrations/firecrawl_client.py\<close> (class
  \<^verbatim>\<open>AcclaimWebClient\<close>) and \<^verbatim>\<open>src/workflows/integrated_lien_discovery.py\<close>
  (class \<^verbatim>\<open>IntegratedLienDiscovery\<close>).

  Conventions of the embedding:
  \<^item> a Python \<^verbatim>\<open>str\<close> is a \<open>string\<close> of ASCII characters;
  \<^item> Python numbers (\<^verbatim>\<open>int\<close> and finite \<^verbatim>\<open>float\<close>) are exact rationals: the
    arithmetic of unbounded integers is exact, the rounding of binary floating point is
    not part of the model;
  \<^item> an exception is a value of type \<open>exn\<close>, and a computation that may raise returns
    \<open>exn + 'a\<close> with \<open>Inl\<close> for the raised exception;
  \<^item> a dictionary with a fixed set of keys is a record; a key that the code reads with
    \<^verbatim>\<open>.get\<close> is an \<open>option\<close> field.
\<close>

datatype exn =
    ValueError string
  | KeyError string
  | IndexError string
  | AttributeError string
  | OtherException string

text \<open>\<^verbatim>\<open>str(e)\<close>: a \<^verbatim>\<open>KeyError\<close> prints its key in quotes.\<close>

fun str_exn :: "exn \<Rightarrow> string" where
  "str_exn (ValueError m) = m"
| "str_exn (KeyError k) = [CHR 0x27] @ k @ [CHR 0x27]"
| "str_exn (IndexError m) = m"
| "str_exn (AttributeError m) = m"
| "str_exn (OtherException m) = m"

subsection \<open>Strings\<close>

text \<open>\<^verbatim>\<open>str.upper\<close> on ASCII text changes exactly the letters a to z.\<close>

definition upper_char :: "char \<Rightarrow> char" where
  "upper_char c =
     (case map_of (zip ''abcdefghijklmnopqrstuvwxyz'' ''ABCDEFGHIJKLMNOPQRSTUVWXYZ'') c of
        Some u \<Rightarrow> u
      | None \<Rightarrow> c)"

definition upper :: "string \<Rightarrow> string" where
  "upper s = map upper_char s"

text \<open>\<^verbatim>\<open>k in s\<close> for strings: \<open>k\<close> occurs in \<open>s\<close> as a contiguous block.\<close>

fun py_in :: "string \<Rightarrow> string \<Rightarrow> bool" where
  "py_in k [] = (k = [])"
| "py_in k (c # cs) = (prefix k (c # cs) \<or> py_in k cs)"

definition isspace :: "char \<Rightarrow> bool" where
  "isspace c = (c \<in> set [CHR 0x09, CHR 0x0A, CHR 0x0B, CHR 0x0C, CHR 0x0D,
                           CHR 0x1C, CHR 0x1D, CHR 0x1E, CHR 0x1F, CHR 0x20])"

definition strip :: "string \<Rightarrow> string" where
  "strip s = rev (dropWhile isspace (rev (dropWhile isspace s)))"

text \<open>\<^verbatim>\<open>s.replace(c, '')\<close> for a one-character \<open>c\<close>.\<close>

definition replace_char :: "char \<Rightarrow> string \<Rightarrow> string" where
  "replace_char c s = filter (\<lambda>x. x \<noteq> c) s"

definition isdigit :: "char \<Rightarrow> bool" where
  "isdigit c = (c \<in> set ''0123456789'')"

definition digit_value :: "char \<Rightarrow> nat" where
  "digit_value c =
     (case map_of (zip ''0123456789'' [0, 1, 2, 3, 4, 5, 6, 7, 8, 9]) c of
        Some d \<Rightarrow> d
      | None \<Rightarrow> 0)"

definition nat_of_digits :: "string \<Rightarrow> nat" where
  "nat_of_digits s = foldl (\<lambda>a c. 10 * a + digit_value c) 0 s"

subsection \<open>The conversion \<^verbatim>\<open>float(str)\<close>\<close>

text \<open>
  Python's grammar of \<^verbatim>\<open>float(s)\<close>: surrounding whitespace, an optional sign, then
  \<^verbatim>\<open>inf\<close>, \<^verbatim>\<open>infinity\<close> or \<^verbatim>\<open>nan\<close> in any case, or a decimal number
  \<^verbatim>\<open>digitpart ["." [digitpart]] | "." digitpart\<close> with an optional exponent, where a
  \<^verbatim>\<open>digitpart\<close> is digits with single underscores between them. Anything else raises
  \<^verbatim>\<open>ValueError\<close>.
\<close>

datatype pyfloat = Finite rat | PosInf | NegInf | NaN

fun digitpart_ok :: "string \<Rightarrow> bool" where
  "digitpart_ok [] = False"
| "digitpart_ok [c] = isdigit c"
| "digitpart_ok (c # d # cs) =
     (isdigit c \<and> (if d = CHR ''_'' then digitpart_ok cs else digitpart_ok (d # cs)))"

definition digitpart_value :: "string \<Rightarrow> nat" where
  "digitpart_value s = nat_of_digits (filter isdigit s)"

definition parse_exponent :: "string \<Rightarrow> int option" where
  "parse_exponent s =
     (case s of
        [] \<Rightarrow> None
      | c # cs \<Rightarrow>
          if c = CHR ''-'' then (if digitpart_ok cs then Some (- int (digitpart_value cs)) else None)
          else if c = CHR ''+'' then (if digitpart_ok cs then Some (int (digitpart_value cs)) else None)
          else (if digitpart_ok s then Some (int (digitpart_value s)) else None))"

definition scale10 :: "rat \<Rightarrow> int \<Rightarrow> rat" where
  "scale10 m k = (if 0 \<le> k then m * 10 ^ nat k else m / 10 ^ nat (- k))"

definition parse_number :: "string \<Rightarrow> rat option" where
  "parse_number s =
     (let m = takeWhile (\<lambda>c. c \<notin> set ''eE'') s;
          e = dropWhile (\<lambda>c. c \<notin> set ''eE'') s;
          ip = takeWhile (\<lambda>c. c \<noteq> CHR ''.'') m;
          fp = dropWhile (\<lambda>c. c \<noteq> CHR ''.'') m;
          f = tl fp;
          ok = (if fp = [] then digitpart_ok ip
                else (ip = [] \<and> digitpart_ok f) \<or> (digitpart_ok ip \<and> (f = [] \<or> digitpart_ok f)));
          v = of_nat (digitpart_value ip)
              + of_nat (digitpart_value f) / 10 ^ length (filter isdigit f)
      in if \<not> ok then None
         else (case e of
                 [] \<Rightarrow> Some v
               | _ # ex \<Rightarrow> map_option (scale10 v) (parse_exponent ex)))"

definition py_float :: "string \<Rightarrow> exn + pyfloat" where
  "py_float s =
     (let t = strip s;
          neg = (t \<noteq> [] \<and> hd t = CHR ''-'');
          body = (if t \<noteq> [] \<and> hd t \<in> set ''+-'' then tl t else t)
      in if upper body \<in> set [''INF'', ''INFINITY''] then Inr (if neg then NegInf else PosInf)
         else if upper body = ''NAN'' then Inr NaN
         else (case parse_number body of
                 None \<Rightarrow> Inl (ValueError (''could not convert string to float: '' @ s))
               | Some r \<Rightarrow> Inr (Finite (if neg then - r else r))))"

section \<open>AcclaimWebClient: amount parsing\<close>

text \<open>
  \<^verbatim>\<open>_parse_amount\<close>: the body of the \<^verbatim>\<open>try\<close>, then the handler
  \<^verbatim>\<open>except (ValueError, AttributeError): return 0.0\<close>. Any other exception would leave
  the function.
\<close>

definition cleaned :: "string \<Rightarrow> string" where
  "cleaned amount_str = strip (replace_char (CHR ''$'') (replace_char (CHR '','') amount_str))"

definition parse_amount_try :: "string \<Rightarrow> exn + pyfloat" where
  "parse_amount_try amount_str = py_float (cleaned amount_str)"

definition parse_amount :: "string \<Rightarrow> exn + pyfloat" where
  "parse_amount amount_str =
     (case parse_amount_try amount_str of
        Inr v \<Rightarrow> Inr v
      | Inl e \<Rightarrow> (case e of
                    ValueError _ \<Rightarrow> Inr (Finite 0)
                  | AttributeError _ \<Rightarrow> Inr (Finite 0)
                  | _ \<Rightarrow> Inl e))"

section \<open>AcclaimWebClient: lien records\<close>

text \<open>
  The dictionary that \<^verbatim>\<open>_parse_liens\<close> builds for one matched line. The keys
  \<^verbatim>\<open>is_hoa\<close>, \<^verbatim>\<open>warning\<close> and \<^verbatim>\<open>priority_position\<close> are added later, so
  they are optional; \<^verbatim>\<open>lien.get('is_hoa')\<close> is truthy exactly for \<open>Some True\<close>.
\<close>

record lien =
  type :: string
  instrument_number :: string
  book :: string
  page :: string
  grantor :: string
  grantee :: string
  recorded_date :: string
  amount :: rat
  is_hoa :: "bool option"
  warning :: "string option"
  priority_position :: "nat option"

subsection \<open>HOA detection in \<^verbatim>\<open>_parse_liens\<close>\<close>

definition hoa_keywords :: "string list" where
  "hoa_keywords = [''HOMEOWNER'', ''HOA'', ''ASSOCIATION'', ''CONDO'', ''COMMUNITY'']"

text \<open>
  The body of \<^verbatim>\<open>for lien in liens\<close>:
  \<^verbatim>\<open>any(keyword in lien['grantor'].upper() for keyword in [...])\<close>.
\<close>

definition detect_hoa :: "lien \<Rightarrow> lien" where
  "detect_hoa lien =
     (if list_ex (\<lambda>keyword. py_in keyword (upper (grantor lien))) hoa_keywords
      then lien\<lparr>is_hoa := Some True,
                warning := Some ''HOA lien may wipe senior mortgages if foreclosed''\<rparr>
      else lien\<lparr>is_hoa := Some False\<rparr>)"

subsection \<open>Recorded dates: \<^verbatim>\<open>datetime.strptime(s, '%m/%d/%Y')\<close>\<close>

text \<open>
  The format matches a month \<^verbatim>\<open>1[0-2]|0[1-9]|[1-9]\<close>, a slash, a day
  \<^verbatim>\<open>3[0-1]|[1-2]\d|0[1-9]|[1-9]| [1-9]\<close>, a slash and a year of four digits, with
  nothing left over; the date must then exist (year at least 1, day within the month).
  Every failure is a \<^verbatim>\<open>ValueError\<close>. Two results compare as (year, month, day).
\<close>

type_synonym datetime = "nat \<times> nat \<times> nat"

fun split_on :: "char \<Rightarrow> string \<Rightarrow> string list" where
  "split_on sep [] = [[]]"
| "split_on sep (x # xs) =
     (if x = sep then [] # split_on sep xs
      else (case split_on sep xs of [] \<Rightarrow> [[x]] | p # ps \<Rightarrow> (x # p) # ps))"

definition month_field_ok :: "string \<Rightarrow> bool" where
  "month_field_ok m =
     (m \<noteq> [] \<and> length m \<le> 2 \<and> list_all isdigit m \<and> 1 \<le> nat_of_digits m \<and> nat_of_digits m \<le> 12)"

definition day_field_ok :: "string \<Rightarrow> bool" where
  "day_field_ok d =
     ((d \<noteq> [] \<and> length d \<le> 2 \<and> list_all isdigit d \<and> 1 \<le> nat_of_digits d \<and> nat_of_digits d \<le> 31)
      \<or> (case d of [s, c] \<Rightarrow> s = CHR '' '' \<and> isdigit c \<and> c \<noteq> CHR ''0'' | _ \<Rightarrow> False))"

definition year_field_ok :: "string \<Rightarrow> bool" where
  "year_field_ok y = (length y = 4 \<and> list_all isdigit y)"

definition is_leap :: "nat \<Rightarrow> bool" where
  "is_leap year = (year mod 4 = 0 \<and> (year mod 100 \<noteq> 0 \<or> year mod 400 = 0))"

definition days_in_month :: "nat \<Rightarrow> nat \<Rightarrow> nat" where
  "days_in_month year month =
     (if month = 2 then (if is_leap year then 29 else 28)
      else if month \<in> set [4, 6, 9, 11] then 30 else 31)"

definition strptime :: "string \<Rightarrow> exn + datetime" where
  "strptime data_string =
     (case split_on (CHR ''/'') data_string of
        [m, d, y] \<Rightarrow>
          if month_field_ok m \<and> day_field_ok d \<and> year_field_ok y then
            (let year = nat_of_digits y;
                 month = nat_of_digits m;
                 day = nat_of_digits (filter isdigit d)
             in if 1 \<le> year \<and> day \<le> days_in_month year month then Inr (year, month, day)
                else Inl (ValueError ''day is out of range for month''))
          else Inl (ValueError (''time data does not match format: '' @ data_string))
      | _ \<Rightarrow> Inl (ValueError (''time data does not match format: '' @ data_string)))"

subsection \<open>Sorting in \<^verbatim>\<open>_parse_liens\<close>\<close>

text \<open>
  \<^verbatim>\<open>liens.sort(key=lambda x: datetime.strptime(x['recorded_date'], '%m/%d/%Y'))\<close>:
  Python computes the key of every element first (the first failure raises), then sorts
  the decorated list by key, keeping the order of equal keys.
\<close>

fun decorate :: "lien list \<Rightarrow> exn + (datetime \<times> lien) list" where
  "decorate [] = Inr []"
| "decorate (x # xs) =
     (case strptime (recorded_date x) of
        Inl e \<Rightarrow> Inl e
      | Inr k \<Rightarrow> (case decorate xs of Inl e \<Rightarrow> Inl e | Inr ks \<Rightarrow> Inr ((k, x) # ks)))"

definition sort_by_recorded_date :: "lien list \<Rightarrow> exn + lien list" where
  "sort_by_recorded_date liens =
     (case decorate liens of
        Inl e \<Rightarrow> Inl e
      | Inr ks \<Rightarrow> Inr (map snd (sort_key fst ks)))"

text \<open>
  \<^verbatim>\<open>_parse_liens\<close>. The first loop, which searches every line of the markdown for
  \<^verbatim>\<open>lien_pattern\<close> and builds one dictionary per match (with the amount from
  \<^verbatim>\<open>_parse_amount\<close>), is the parameter \<open>match_lines\<close>; the detection loop and the sort
  follow it.
\<close>

definition parse_liens :: "(string \<Rightarrow> lien list) \<Rightarrow> string \<Rightarrow> exn + lien list" where
  "parse_liens match_lines markdown =
     sort_by_recorded_date (map detect_hoa (match_lines markdown))"

section \<open>IntegratedLienDiscovery: agent documents\<close>

text \<open>
  One entry of \<^verbatim>\<open>agent_output['documents']\<close>. The keys \<^verbatim>\<open>amount\<close> and
  \<^verbatim>\<open>hoa_lien\<close> are read with \<^verbatim>\<open>.get\<close>; \<^verbatim>\<open>document_type\<close> is subscripted.
  Fields whose key also occurs in a lien dictionary carry the prefix \<open>doc_\<close>.
\<close>

record document =
  document_type :: string
  doc_grantor :: string
  doc_recorded_date :: string
  doc_amount :: "rat option"
  hoa_lien :: "bool option"

section \<open>Warnings\<close>

text \<open>
  A warning dictionary: its \<^verbatim>\<open>type\<close>, its \<^verbatim>\<open>severity\<close> where the code gives one,
  its \<^verbatim>\<open>message\<close> and the value it carries (\<^verbatim>\<open>lien\<close>, \<^verbatim>\<open>count\<close> or
  \<^verbatim>\<open>hoa_liens\<close>). The message of the equity warning ends with the formatted amount in
  the source; here the amount is the carried value \<open>Equity\<close>.
\<close>

datatype payload = NoPayload | LienRef lien | Count nat | HoaLiens "document list" | Equity rat

record warning_dict =
  w_type :: string
  severity :: "string option"
  message :: string
  carried :: payload

definition digit_char :: "nat \<Rightarrow> char" where
  "digit_char d = ''0123456789'' ! d"

fun str_nat :: "nat \<Rightarrow> string" where
  "str_nat n = (if n < 10 then [digit_char n] else str_nat (n div 10) @ [digit_char (n mod 10)])"

section \<open>AcclaimWebClient.analyze_lien_priority\<close>

record encumbrance =
  es_total :: rat
  first_mortgage :: rat
  other_liens :: rat

record analysis =
  total_liens :: nat
  total_encumbrance :: rat
  first_position :: "lien option"
  hoa_liens :: "lien list"
  mortgages :: "lien list"
  judgments :: "lien list"
  warnings :: "warning_dict list"
  encumbrance_summary :: "encumbrance option"

definition hoa_warning :: "lien \<Rightarrow> warning_dict" where
  "hoa_warning lien =
     \<lparr>w_type = ''HOA_FORECLOSURE_RISK'',
      severity = None,
      message = ''HOA lien detected: '' @ grantor lien @ '' - may wipe senior mortgages'',
      carried = LienRef lien\<rparr>"

definition multiple_mortgages_warning :: "nat \<Rightarrow> warning_dict" where
  "multiple_mortgages_warning n =
     \<lparr>w_type = ''MULTIPLE_MORTGAGES'',
      severity = None,
      message = str_nat n @ '' mortgages detected - complex title'',
      carried = Count n\<rparr>"

text \<open>
  The body of \<^verbatim>\<open>for idx, lien in enumerate(liens)\<close>. The dictionary is updated in place
  before it is appended to a bucket, so the buckets hold the record with its position.
\<close>

definition categorize :: "nat \<Rightarrow> lien \<Rightarrow> analysis \<Rightarrow> lien \<times> analysis" where
  "categorize idx lien0 a =
     (let lien = lien0\<lparr>priority_position := Some (idx + 1)\<rparr> in
      if type lien = ''MTG'' then
        (let a1 = a\<lparr>mortgages := mortgages a @ [lien]\<rparr>
         in (lien, if idx = 0 then a1\<lparr>first_position := Some lien\<rparr> else a1))
      else if type lien = ''LIEN'' then
        (if is_hoa lien = Some True
         then (lien, a\<lparr>hoa_liens := hoa_liens a @ [lien],
                         warnings := warnings a @ [hoa_warning lien]\<rparr>)
         else (lien, a))
      else if type lien = ''JUDG'' then
        (lien, a\<lparr>judgments := judgments a @ [lien]\<rparr>)
      else (lien, a))"

fun categorize_loop :: "nat \<Rightarrow> lien list \<Rightarrow> analysis \<Rightarrow> lien list \<times> analysis" where
  "categorize_loop idx [] a = ([], a)"
| "categorize_loop idx (lien # rest) a =
     (case categorize idx lien a of
        (lien', a') \<Rightarrow>
          (case categorize_loop (idx + 1) rest a' of
             (rest', a'') \<Rightarrow> (lien' # rest', a'')))"

text \<open>
  The function returns the analysis; the list it was given is returned with it, as the
  loop has written \<^verbatim>\<open>priority_position\<close> into its dictionaries.
\<close>

definition analyze_lien_priority :: "lien list \<Rightarrow> lien list \<times> analysis" where
  "analyze_lien_priority liens =
     (let a0 = \<lparr>total_liens = length liens,
                total_encumbrance = sum_list (map amount liens),
                first_position = None,
                hoa_liens = [],
                mortgages = [],
                judgments = [],
                warnings = [],
                encumbrance_summary = None\<rparr>;
          (liens', a1) = categorize_loop 0 liens a0;
          a2 = (if length (mortgages a1) > 2
                then a1\<lparr>warnings := warnings a1 @ [multiple_mortgages_warning (length (mortgages a1))]\<rparr>
                else a1);
          first_amount = (case first_position a2 of Some fp \<Rightarrow> amount fp | None \<Rightarrow> 0);
          a3 = (if total_encumbrance a2 > 0
                then a2\<lparr>encumbrance_summary :=
                          Some \<lparr>es_total = total_encumbrance a2,
                                first_mortgage = first_amount,
                                other_liens = total_encumbrance a2 - first_amount\<rparr>\<rparr>
                else a2)
      in (liens', a3))"

section \<open>AcclaimWebClient.search_liens\<close>

text \<open>
  The response of \<^verbatim>\<open>FirecrawlClient.scrape\<close>, with the keys that \<^verbatim>\<open>search_liens\<close>
  reads. \<^verbatim>\<open>scrape\<close> itself performs the HTTP request: it is a parameter that either
  raises or returns a response, or \<^verbatim>\<open>None\<close> when it falls off its last branch.
\<close>

record scrape_data =
  markdown :: "string option"
  screenshots :: "string option list option option"

record scrape_result =
  sr_success :: "bool option"
  sr_error :: "string option"
  sr_data :: "scrape_data option"

datatype action =
    Wait nat
  | Click string
  | WriteText string string
  | Screenshot

record search_ok =
  so_address :: string
  so_parcel_id :: "string option"
  so_liens :: "lien list"
  so_total_liens :: nat
  so_screenshot :: "string option"
  so_raw_markdown :: string
  so_search_timestamp :: string

datatype search_result =
    SearchOk search_ok
  | SearchFailed (sf_error: string) (sf_address: string)

definition search_url :: string where
  "search_url = ''https://or.brevardclerk.us/AcclaimWeb/search/SearchTypeName?SearchType=Image''"

definition build_actions :: "string \<Rightarrow> string option \<Rightarrow> bool \<Rightarrow> bool \<Rightarrow> bool \<Rightarrow> action list" where
  "build_actions address parcel_id include_mortgages include_liens include_judgments =
     (let search_text = (case parcel_id of Some p \<Rightarrow> if p \<noteq> [] then p else address | None \<Rightarrow> address)
      in [Wait 3000]
         @ (if include_mortgages then [Click (''input[value='' @ [CHR 0x27] @ ''MTG'' @ [CHR 0x27] @ '']''), Wait 500] else [])
         @ (if include_liens then [Click (''input[value='' @ [CHR 0x27] @ ''LIEN'' @ [CHR 0x27] @ '']''), Wait 500] else [])
         @ (if include_judgments then [Click (''input[value='' @ [CHR 0x27] @ ''JUDG'' @ [CHR 0x27] @ '']''), Wait 500] else [])
         @ [WriteText (''input[name='' @ [CHR 0x27] @ ''NameSearchModel.SearchCriteria'' @ [CHR 0x27] @ '']'') search_text,
            Wait 1000,
            Click (''button[type='' @ [CHR 0x27] @ ''submit'' @ [CHR 0x27] @ '']''),
            Wait 5000,
            Screenshot])"

type_synonym scraper = "string \<Rightarrow> string list \<Rightarrow> action list \<Rightarrow> exn + scrape_result option"

text \<open>
  The body of the \<^verbatim>\<open>try\<close>. \<^verbatim>\<open>result['data']['markdown']\<close> raises \<^verbatim>\<open>KeyError\<close>
  on a missing key; \<^verbatim>\<open>result['data'].get('actions', {}).get('screenshots', [None])[0]\<close>
  raises \<^verbatim>\<open>IndexError\<close> on an empty list; \<^verbatim>\<open>_parse_liens\<close> raises on a date that
  does not parse; a \<^verbatim>\<open>None\<close> response has no \<^verbatim>\<open>get\<close>.
  In \<open>screenshots\<close>, the outer option is the key \<^verbatim>\<open>actions\<close>, the inner one the key
  \<^verbatim>\<open>screenshots\<close>.
\<close>

definition search_liens_try ::
  "(string \<Rightarrow> lien list) \<Rightarrow> scraper \<Rightarrow> string \<Rightarrow> string \<Rightarrow> string option \<Rightarrow> bool \<Rightarrow> bool \<Rightarrow> bool
     \<Rightarrow> exn + search_result" where
  "search_liens_try match_lines scrape now address parcel_id include_mortgages include_liens include_judgments =
     (case scrape search_url [''markdown'']
             (build_actions address parcel_id include_mortgages include_liens include_judgments) of
        Inl e \<Rightarrow> Inl e
      | Inr None \<Rightarrow> Inl (AttributeError ''NoneType object has no attribute get'')
      | Inr (Some result) \<Rightarrow>
          if sr_success result = Some True then
            (case sr_data result of
               None \<Rightarrow> Inl (KeyError ''data'')
             | Some d \<Rightarrow>
                 (case markdown d of
                    None \<Rightarrow> Inl (KeyError ''markdown'')
                  | Some md \<Rightarrow>
                      (case (case screenshots d of
                               None \<Rightarrow> [None]
                             | Some None \<Rightarrow> [None]
                             | Some (Some shots) \<Rightarrow> shots) of
                         [] \<Rightarrow> Inl (IndexError ''list index out of range'')
                       | screenshot # _ \<Rightarrow>
                           (case parse_liens match_lines md of
                              Inl e \<Rightarrow> Inl e
                            | Inr liens \<Rightarrow>
                                Inr (SearchOk \<lparr>so_address = address,
                                               so_parcel_id = parcel_id,
                                               so_liens = liens,
                                               so_total_liens = length liens,
                                               so_screenshot = screenshot,
                                               so_raw_markdown = md,
                                               so_search_timestamp = now\<rparr>)))))
          else Inr (SearchFailed (case sr_error result of Some e \<Rightarrow> e | None \<Rightarrow> ''Unknown error'')
                                 address))"

text \<open>
  \<^verbatim>\<open>except Exception as e\<close> handles every value of \<open>exn\<close>: the type holds the
  subclasses of \<^verbatim>\<open>Exception\<close>. The result is \<open>Inl\<close> when an exception leaves the
  function.
\<close>

definition search_liens ::
  "(string \<Rightarrow> lien list) \<Rightarrow> scraper \<Rightarrow> string \<Rightarrow> string \<Rightarrow> string option \<Rightarrow> bool \<Rightarrow> bool \<Rightarrow> bool
     \<Rightarrow> exn + search_result" where
  "search_liens match_lines scrape now address parcel_id include_mortgages include_liens include_judgments =
     (case search_liens_try match_lines scrape now address parcel_id
             include_mortgages include_liens include_judgments of
        Inr r \<Rightarrow> Inr r
      | Inl e \<Rightarrow> Inr (SearchFailed (str_exn e) address))"

section \<open>IntegratedLienDiscovery._combine_results\<close>

text \<open>
  \<^verbatim>\<open>bcpao_data\<close> as \<^verbatim>\<open>_get_owner_from_bcpao\<close> returns it on success, and the result
  of \<^verbatim>\<open>_search_acclaimweb\<close>. Values read with \<^verbatim>\<open>.get\<close> are optional.
\<close>

record bcpao_data =
  parcel_id :: string
  address :: string
  owner_name :: string
  assessed_value :: "rat option"
  just_value :: "rat option"
  living_area :: "rat option"
  year_built :: "rat option"

record agent_output =
  documents :: "document list option"

record acclaimweb_result =
  success :: bool
  error :: "string option"
  agent_result :: "agent_output option"
  credits_used :: "string option"

text \<open>
  The dictionary returned on success. The nested dictionaries \<^verbatim>\<open>property\<close>,
  \<^verbatim>\<open>lien_analysis\<close>, \<^verbatim>\<open>investment_analysis\<close> and \<^verbatim>\<open>metadata\<close> are flattened,
  their keys prefixed with \<open>p_\<close>, \<open>la_\<close>, \<open>ia_\<close> and \<open>md_\<close>.
\<close>

record combined =
  timestamp :: string
  p_parcel_id :: string
  p_address :: string
  p_owner_name :: string
  p_assessed_value :: rat
  p_just_value :: rat
  p_living_area :: rat
  p_year_built :: rat
  la_total_liens :: nat
  la_total_encumbrance :: rat
  la_mortgages :: nat
  la_other_liens :: nat
  la_judgments :: nat
  la_hoa_liens :: nat
  la_first_position :: "document option"
  all_liens :: "document list"
  ia_arv :: rat
  ia_max_bid_equity_70pct :: rat
  ia_recommendation :: string
  ia_reason :: string
  ia_warnings :: "warning_dict list"
  md_credits_used :: string

datatype combine_result =
    CombineOk combined
  | CombineFailed (cf_error: string) (cf_bcpao_data: bcpao_data) (cf_acclaimweb_error: "string option")

definition get_or :: "'a \<Rightarrow> 'a option \<Rightarrow> 'a" where
  "get_or dflt v = (case v of Some x \<Rightarrow> x | None \<Rightarrow> dflt)"

text \<open>The three warning dictionaries of \<^verbatim>\<open>_combine_results\<close>.\<close>

definition hoa_risk_warning :: "document list \<Rightarrow> warning_dict" where
  "hoa_risk_warning hoa =
     \<lparr>w_type = ''HOA_FORECLOSURE_RISK'',
      severity = Some ''CRITICAL'',
      message = str_nat (length hoa)
        @ '' HOA lien(s) detected - may extinguish senior mortgages in Florida!'',
      carried = HoaLiens hoa\<rparr>"

definition complex_title_warning :: "nat \<Rightarrow> warning_dict" where
  "complex_title_warning n =
     \<lparr>w_type = ''COMPLEX_TITLE'',
      severity = Some ''MEDIUM'',
      message = str_nat n @ '' mortgages detected - complex title structure'',
      carried = NoPayload\<rparr>"

definition insufficient_equity_warning :: "rat \<Rightarrow> warning_dict" where
  "insufficient_equity_warning max_bid_equity =
     \<lparr>w_type = ''INSUFFICIENT_EQUITY'',
      severity = Some ''HIGH'',
      message = ''Insufficient equity after liens: $'',
      carried = Equity max_bid_equity\<rparr>"

definition combine_results :: "string \<Rightarrow> bcpao_data \<Rightarrow> acclaimweb_result \<Rightarrow> combine_result" where
  "combine_results now bcpao acclaimweb =
     (if \<not> success acclaimweb then
        CombineFailed ''AcclaimWeb search failed'' bcpao (error acclaimweb)
      else
        (let agent = get_or \<lparr>documents = None\<rparr> (agent_result acclaimweb);
             lns = get_or [] (documents agent);
             n_liens = length lns;
             hoa = filter (\<lambda>lien. get_or False (hoa_lien lien)) lns;
             encumbrance_sum = sum_list (map (\<lambda>lien. get_or 0 (doc_amount lien)) lns);
             mtgs = filter (\<lambda>lien. document_type lien = ''MTG'') lns;
             others = filter (\<lambda>lien. document_type lien = ''LIEN'') lns;
             judgs = filter (\<lambda>lien. document_type lien = ''JUDG'') lns;
             first = (case mtgs of [] \<Rightarrow> None | m # _ \<Rightarrow> Some m);
             assessed = get_or 0 (assessed_value bcpao);
             just = get_or 0 (just_value bcpao);
             arv = max assessed just;
             max_bid_equity = (arv * (70 / 100)) - encumbrance_sum - 10000;
             warns =
               (if hoa \<noteq> [] then [hoa_risk_warning hoa] else [])
               @ (if length mtgs > 2 then [complex_title_warning (length mtgs)] else [])
               @ (if max_bid_equity < 10000 then [insufficient_equity_warning max_bid_equity] else []);
             decision =
               (if hoa \<noteq> [] then
                  (''SKIP'', ''HOA foreclosure risk - may wipe senior mortgages'')
                else if max_bid_equity < 10000 then
                  (''SKIP'', ''Insufficient equity after liens'')
                else if length mtgs > 2 then
                  (''REVIEW'', ''Complex title - verify lien priority with attorney'')
                else
                  (''BID'', ''Acceptable lien structure and equity position''))
         in CombineOk
              \<lparr>timestamp = now,
               p_parcel_id = parcel_id bcpao,
               p_address = address bcpao,
               p_owner_name = owner_name bcpao,
               p_assessed_value = assessed,
               p_just_value = just,
               p_living_area = get_or 0 (living_area bcpao),
               p_year_built = get_or 0 (year_built bcpao),
               la_total_liens = n_liens,
               la_total_encumbrance = encumbrance_sum,
               la_mortgages = length mtgs,
               la_other_liens = length others,
               la_judgments = length judgs,
               la_hoa_liens = length hoa,
               la_first_position = first,
               all_liens = lns,
               ia_arv = arv,
               ia_max_bid_equity_70pct = max_bid_equity,
               ia_recommendation = fst decision,
               ia_reason = snd decision,
               ia_warnings = warns,
               md_credits_used = get_or ''unknown'' (credits_used acclaimweb)\<rparr>))"

section \<open>The decision table as the specification words it\<close>





section \<open>Auxiliary definitions\<close>

text \<open>The list as the loop of \<^verbatim>\<open>analyze_lien_priority\<close> leaves it, counting from \<open>idx\<close>.\<close>

fun ranked :: "nat \<Rightarrow> lien list \<Rightarrow> lien list" where
  "ranked idx [] = []"
| "ranked idx (l # ls) = l\<lparr>priority_position := Some (idx + 1)\<rparr> # ranked (idx + 1) ls"

text \<open>The dictionary \<^verbatim>\<open>analysis\<close> before the loop of \<^verbatim>\<open>analyze_lien_priority\<close>.\<close>

definition initial_analysis :: "lien list \<Rightarrow> analysis" where
  "initial_analysis ls =
     \<lparr>total_liens = length ls,
      total_encumbrance = sum_list (map amount ls),
      first_position = None,
      hoa_liens = [],
      mortgages = [],
      judgments = [],
      warnings = [],
      encumbrance_summary = None\<rparr>"

text \<open>\<^verbatim>\<open>acclaimweb_result.get('agent_result', {}).get('documents', [])\<close>.\<close>

definition documents_of :: "acclaimweb_result \<Rightarrow> document list" where
  "documents_of acclaimweb = get_or [] (documents (get_or \<lparr>documents = None\<rparr> (agent_result acclaimweb)))"

text \<open>Sample dictionaries in the shape of the repository's tests.\<close>

definition example_lien :: "string \<Rightarrow> string \<Rightarrow> string \<Rightarrow> rat \<Rightarrow> bool option \<Rightarrow> lien" where
  "example_lien ty creditor date amt hoa =
     \<lparr>type = ty, instrument_number = ''2023-12345'', book = ''1234'', page = ''567'',
      grantor = creditor, grantee = ''JOHN DOE'', recorded_date = date, amount = amt,
      is_hoa = hoa, warning = None, priority_position = None\<rparr>"

definition example_document :: "string \<Rightarrow> string \<Rightarrow> string \<Rightarrow> rat \<Rightarrow> bool \<Rightarrow> document" where
  "example_document ty creditor date amt hoa =
     \<lparr>document_type = ty, doc_grantor = creditor, doc_recorded_date = date,
      doc_amount = Some amt, hoa_lien = Some hoa\<rparr>"

definition example_bcpao :: "rat option \<Rightarrow> rat option \<Rightarrow> bcpao_data" where
  "example_bcpao assessed just =
     \<lparr>parcel_id = ''2517790'', address = ''4127 ARLINGTON AVE'', owner_name = ''JOHN DOE'',
      assessed_value = assessed, just_value = just, living_area = Some 1500, year_built = Some 1990\<rparr>"

definition example_acclaimweb :: "document list \<Rightarrow> acclaimweb_result" where
  "example_acclaimweb docs =
     \<lparr>success = True, error = None, agent_result = Some \<lparr>documents = Some docs\<rparr>,
      credits_used = None\<rparr>"

section \<open>Strings and amounts\<close>

lemmas string_eval = strip_def isspace_def replace_char_def upper_def upper_char_def isdigit_def
  digit_value_def nat_of_digits_def

lemmas float_eval = string_eval digitpart_value_def parse_exponent_def scale10_def
  parse_number_def py_float_def

lemma py_in_sublist: "py_in k s = sublist k s"
  by (induction s) (simp_all add: sublist_Cons_right)

lemma py_in_iff: "py_in k s \<longleftrightarrow> (\<exists>p t. s = p @ k @ t)"
  by (simp add: py_in_sublist sublist_def)

lemma set_strip: "set (strip s) \<subseteq> set s"
proof
  fix x assume "x \<in> set (strip s)"
  then have "x \<in> set (dropWhile isspace (rev (dropWhile isspace s)))"
    by (simp add: strip_def)
  then have "x \<in> set (rev (dropWhile isspace s))"
    by (rule set_dropWhileD)
  then show "x \<in> set s"
    by (auto dest: set_dropWhileD)
qed

lemma cleaned_chars: "CHR ''$'' \<notin> set (cleaned s) \<and> CHR '','' \<notin> set (cleaned s)"
proof -
  have "set (cleaned s) \<subseteq> set (replace_char (CHR ''$'') (replace_char (CHR '','') s))"
    unfolding cleaned_def by (rule set_strip)
  then show ?thesis by (auto simp: replace_char_def)
qed

lemma py_float_raises: "py_float s = Inl e \<Longrightarrow> \<exists>m. e = ValueError m"
  by (auto simp: py_float_def Let_def split: if_splits option.splits)

text \<open>
  Claim C7. \<^verbatim>\<open>_parse_amount\<close> removes every dollar sign and every comma before the
  conversion, and it never raises on a string: when \<^verbatim>\<open>float\<close> rejects the cleaned
  text the result is 0, otherwise it is the converted number. \<^verbatim>\<open>"$250,000"\<close> gives
  250000 and \<^verbatim>\<open>"invalid"\<close> gives 0.
\<close>

theorem parse_amount_never_raises:
  "cleaned s = strip (filter (\<lambda>c. c \<noteq> CHR ''$'' \<and> c \<noteq> CHR '','') s)
   \<and> CHR ''$'' \<notin> set (cleaned s) \<and> CHR '','' \<notin> set (cleaned s)
   \<and> parse_amount s = Inr (case py_float (cleaned s) of Inl e \<Rightarrow> Finite 0 | Inr v \<Rightarrow> v)
   \<and> parse_amount ''$250,000'' = Inr (Finite 250000)
   \<and> parse_amount ''invalid'' = Inr (Finite 0)"
proof -
  have a: "cleaned s = strip (filter (\<lambda>c. c \<noteq> CHR ''$'' \<and> c \<noteq> CHR '','') s)"
    by (simp add: cleaned_def replace_char_def conj_commute)
  have b: "parse_amount s = Inr (case py_float (cleaned s) of Inl e \<Rightarrow> Finite 0 | Inr v \<Rightarrow> v)"
  proof (cases "py_float (cleaned s)")
    case (Inl e)
    then obtain m where "e = ValueError m" using py_float_raises by blast
    with Inl show ?thesis by (simp add: parse_amount_def parse_amount_try_def)
  next
    case (Inr v)
    then show ?thesis by (simp add: parse_amount_def parse_amount_try_def)
  qed
  have c: "parse_amount ''$250,000'' = Inr (Finite 250000)"
    by (simp add: parse_amount_def parse_amount_try_def cleaned_def float_eval)
  have d: "parse_amount ''invalid'' = Inr (Finite 0)"
    by (simp add: parse_amount_def parse_amount_try_def cleaned_def float_eval)
  from a b c d cleaned_chars show ?thesis by blast
qed

theorem parse_amount_never_raises_witness:
  "parse_amount ''$1,234.56'' = Inr (Finite (30864 / 25))
   \<and> parse_amount '',,'' = Inr (Finite 0)
   \<and> CHR ''$'' \<notin> set (cleaned ''$1,234.56'')"
proof -
  have 1: "py_float (cleaned ''$1,234.56'') = Inr (Finite (30864 / 25))"
    by (simp add: cleaned_def float_eval)
  have 2: "\<exists>m. py_float (cleaned '',,'') = Inl (ValueError m)"
    by (simp add: cleaned_def float_eval)
  from 1 2 show ?thesis
    using parse_amount_never_raises [of "''$1,234.56''"] parse_amount_never_raises [of "'',,''"]
    by auto
qed

section \<open>The HOA classifier\<close>

lemma detect_hoa_flag:
  "is_hoa (detect_hoa l) = Some (list_ex (\<lambda>keyword. py_in keyword (upper (grantor l))) hoa_keywords)"
  by (simp add: detect_hoa_def)

lemmas hoa_eval = detect_hoa_flag hoa_keywords_def upper_def upper_char_def

text \<open>
  Claim C5. The flag \<^verbatim>\<open>is_hoa\<close> is true exactly when one of the five keywords occurs as
  a block in the upper-cased creditor (\<^verbatim>\<open>grantor\<close>); two creditors that agree after
  upper-casing get the same flag; the amount and the date of the record do not enter.
  \<^verbatim>\<open>"sunset Homeowners association"\<close> and \<^verbatim>\<open>"SUNSET HOMEOWNERS ASSOCIATION"\<close> are
  flagged, \<^verbatim>\<open>"Wells Fargo Bank NA"\<close> is not.
\<close>

theorem detect_hoa_classifier:
  "(is_hoa (detect_hoa l) = Some True
      \<longleftrightarrow> (\<exists>k \<in> set hoa_keywords. \<exists>p t. upper (grantor l) = p @ k @ t))
   \<and> (is_hoa (detect_hoa l) = Some False
      \<longleftrightarrow> \<not> (\<exists>k \<in> set hoa_keywords. \<exists>p t. upper (grantor l) = p @ k @ t))
   \<and> (\<forall>l'. upper (grantor l') = upper (grantor l) \<longrightarrow> is_hoa (detect_hoa l') = is_hoa (detect_hoa l))
   \<and> (\<forall>a d. is_hoa (detect_hoa (l\<lparr>amount := a, recorded_date := d\<rparr>)) = is_hoa (detect_hoa l))
   \<and> is_hoa (detect_hoa (l\<lparr>grantor := ''sunset Homeowners association''\<rparr>)) = Some True
   \<and> is_hoa (detect_hoa (l\<lparr>grantor := ''SUNSET HOMEOWNERS ASSOCIATION''\<rparr>)) = Some True
   \<and> is_hoa (detect_hoa (l\<lparr>grantor := ''Wells Fargo Bank NA''\<rparr>)) = Some False"
proof -
  have a: "list_ex (\<lambda>keyword. py_in keyword (upper (grantor l))) hoa_keywords
             \<longleftrightarrow> (\<exists>k \<in> set hoa_keywords. \<exists>p t. upper (grantor l) = p @ k @ t)"
    by (simp add: list_ex_iff py_in_iff)
  have b: "\<forall>l'. upper (grantor l') = upper (grantor l) \<longrightarrow> is_hoa (detect_hoa l') = is_hoa (detect_hoa l)"
    by (simp add: detect_hoa_flag)
  have c: "\<forall>a d. is_hoa (detect_hoa (l\<lparr>amount := a, recorded_date := d\<rparr>)) = is_hoa (detect_hoa l)"
    by (simp add: detect_hoa_flag)
  have d: "is_hoa (detect_hoa (l\<lparr>grantor := ''sunset Homeowners association''\<rparr>)) = Some True"
    by (simp add: hoa_eval)
  have e: "is_hoa (detect_hoa (l\<lparr>grantor := ''SUNSET HOMEOWNERS ASSOCIATION''\<rparr>)) = Some True"
    by (simp add: hoa_eval)
  have f: "is_hoa (detect_hoa (l\<lparr>grantor := ''Wells Fargo Bank NA''\<rparr>)) = Some False"
    by (simp add: hoa_eval)
  from a b c d e f show ?thesis
    by (simp add: detect_hoa_flag)
qed

theorem detect_hoa_classifier_witness:
  "upper (grantor (example_lien ''LIEN'' ''sunset Homeowners association'' ''02/20/2023'' 5000 None))
     = upper (grantor (example_lien ''MTG'' ''SUNSET HOMEOWNERS ASSOCIATION'' ''01/15/2023'' 250000 None))
   \<and> is_hoa (detect_hoa (example_lien ''LIEN'' ''sunset Homeowners association'' ''02/20/2023'' 5000 None))
     = is_hoa (detect_hoa (example_lien ''MTG'' ''SUNSET HOMEOWNERS ASSOCIATION'' ''01/15/2023'' 250000 None))"
proof -
  have h: "upper (grantor (example_lien ''LIEN'' ''sunset Homeowners association'' ''02/20/2023'' 5000 None))
     = upper (grantor (example_lien ''MTG'' ''SUNSET HOMEOWNERS ASSOCIATION'' ''01/15/2023'' 250000 None))"
    by (simp add: example_lien_def upper_def upper_char_def)
  with detect_hoa_classifier [of "example_lien ''MTG'' ''SUNSET HOMEOWNERS ASSOCIATION'' ''01/15/2023'' 250000 None"]
  show ?thesis by blast
qed

section \<open>The loop of analyze_lien_priority\<close>

lemma categorize_fst: "fst (categorize idx l a) = l\<lparr>priority_position := Some (idx + 1)\<rparr>"
  by (simp add: categorize_def Let_def)

lemma categorize_snd_fields:
  "mortgages (snd (categorize idx l a))
     = mortgages a @ filter (\<lambda>x. type x = ''MTG'') [l\<lparr>priority_position := Some (idx + 1)\<rparr>]"
  "judgments (snd (categorize idx l a))
     = judgments a @ filter (\<lambda>x. type x = ''JUDG'') [l\<lparr>priority_position := Some (idx + 1)\<rparr>]"
  "hoa_liens (snd (categorize idx l a))
     = hoa_liens a @ filter (\<lambda>x. type x = ''LIEN'' \<and> is_hoa x = Some True) [l\<lparr>priority_position := Some (idx + 1)\<rparr>]"
  "warnings (snd (categorize idx l a))
     = warnings a @ map hoa_warning (filter (\<lambda>x. type x = ''LIEN'' \<and> is_hoa x = Some True) [l\<lparr>priority_position := Some (idx + 1)\<rparr>])"
  "total_liens (snd (categorize idx l a)) = total_liens a"
  "total_encumbrance (snd (categorize idx l a)) = total_encumbrance a"
  "encumbrance_summary (snd (categorize idx l a)) = encumbrance_summary a"
  "first_position (snd (categorize idx l a))
     = (if idx = 0 \<and> type l = ''MTG'' then Some (l\<lparr>priority_position := Some (idx + 1)\<rparr>) else first_position a)"
  by (simp_all add: categorize_def Let_def)

lemma loop_Cons:
  "categorize_loop idx (l # ls) a
     = (fst (categorize idx l a) # fst (categorize_loop (idx + 1) ls (snd (categorize idx l a))),
        snd (categorize_loop (idx + 1) ls (snd (categorize idx l a))))"
  by (simp split: prod.splits)

lemma loop_fst: "fst (categorize_loop idx ls a) = ranked idx ls"
  by (induction ls arbitrary: idx a) (simp_all add: loop_Cons categorize_fst del: categorize_loop.simps(2))

lemma loop_mortgages:
  "mortgages (snd (categorize_loop idx ls a)) = mortgages a @ filter (\<lambda>l. type l = ''MTG'') (ranked idx ls)"
  by (induction ls arbitrary: idx a) (simp_all add: loop_Cons categorize_snd_fields del: categorize_loop.simps(2))

lemma loop_judgments:
  "judgments (snd (categorize_loop idx ls a)) = judgments a @ filter (\<lambda>l. type l = ''JUDG'') (ranked idx ls)"
  by (induction ls arbitrary: idx a) (simp_all add: loop_Cons categorize_snd_fields del: categorize_loop.simps(2))

lemma loop_hoa_liens:
  "hoa_liens (snd (categorize_loop idx ls a))
     = hoa_liens a @ filter (\<lambda>l. type l = ''LIEN'' \<and> is_hoa l = Some True) (ranked idx ls)"
  by (induction ls arbitrary: idx a) (simp_all add: loop_Cons categorize_snd_fields del: categorize_loop.simps(2))

lemma loop_warnings:
  "warnings (snd (categorize_loop idx ls a))
     = warnings a @ map hoa_warning (filter (\<lambda>l. type l = ''LIEN'' \<and> is_hoa l = Some True) (ranked idx ls))"
  by (induction ls arbitrary: idx a) (simp_all add: loop_Cons categorize_snd_fields del: categorize_loop.simps(2))

lemma loop_totals:
  "total_liens (snd (categorize_loop idx ls a)) = total_liens a"
  "total_encumbrance (snd (categorize_loop idx ls a)) = total_encumbrance a"
  "encumbrance_summary (snd (categorize_loop idx ls a)) = encumbrance_summary a"
  by (induction ls arbitrary: idx a) (simp_all add: loop_Cons categorize_snd_fields del: categorize_loop.simps(2))

lemma loop_first_position_pos:
  "0 < idx \<Longrightarrow> first_position (snd (categorize_loop idx ls a)) = first_position a"
  by (induction ls arbitrary: idx a) (simp_all add: loop_Cons categorize_snd_fields del: categorize_loop.simps(2))

lemma loop_first_position:
  "first_position (snd (categorize_loop 0 ls a))
     = (case ranked 0 ls of
          [] \<Rightarrow> first_position a
        | l # _ \<Rightarrow> if type l = ''MTG'' then Some l else first_position a)"
  by (cases ls) (simp_all add: loop_Cons categorize_snd_fields loop_first_position_pos del: categorize_loop.simps(2))

lemma ranked_length: "length (ranked idx ls) = length ls"
  by (induction ls arbitrary: idx) simp_all

lemma ranked_positions: "map priority_position (ranked idx ls) = map Some [idx + 1 ..< idx + 1 + length ls]"
  by (induction ls arbitrary: idx) (simp_all add: upt_rec)

lemma ranked_nth: "i < length ls \<Longrightarrow> ranked idx ls ! i = (ls ! i)\<lparr>priority_position := Some (idx + i + 1)\<rparr>"
  by (induction ls arbitrary: idx i) (auto simp: nth_Cons split: nat.splits)

lemma ranked_types: "map type (ranked idx ls) = map type ls"
  by (induction ls arbitrary: idx) simp_all

lemma ranked_count_type: "length (filter (\<lambda>l. type l = ty) (ranked idx ls)) = length (filter (\<lambda>l. type l = ty) ls)"
  by (induction ls arbitrary: idx) simp_all

lemma ranked_set: "x \<in> set (ranked idx ls) \<Longrightarrow> \<exists>l \<in> set ls. type x = type l \<and> is_hoa x = is_hoa l \<and> grantor x = grantor l \<and> amount x = amount l"
  by (induction ls arbitrary: idx) auto

lemma analyze_unfold:
  "analyze_lien_priority ls =
     (let a1 = snd (categorize_loop 0 ls (initial_analysis ls));
          a2 = (if length (mortgages a1) > 2
                then a1\<lparr>warnings := warnings a1 @ [multiple_mortgages_warning (length (mortgages a1))]\<rparr>
                else a1);
          first_amount = (case first_position a2 of Some fp \<Rightarrow> amount fp | None \<Rightarrow> 0);
          a3 = (if total_encumbrance a2 > 0
                then a2\<lparr>encumbrance_summary :=
                          Some \<lparr>es_total = total_encumbrance a2,
                                first_mortgage = first_amount,
                                other_liens = total_encumbrance a2 - first_amount\<rparr>\<rparr>
                else a2)
      in (ranked 0 ls, a3))"
  by (simp add: analyze_lien_priority_def initial_analysis_def Let_def case_prod_beta loop_fst)

lemma analyze_fst: "fst (analyze_lien_priority ls) = ranked 0 ls"
  by (simp add: analyze_unfold Let_def)

lemma analyze_mortgages:
  "mortgages (snd (analyze_lien_priority ls)) = filter (\<lambda>l. type l = ''MTG'') (ranked 0 ls)"
  by (simp add: analyze_unfold Let_def loop_mortgages initial_analysis_def)

lemma analyze_judgments:
  "judgments (snd (analyze_lien_priority ls)) = filter (\<lambda>l. type l = ''JUDG'') (ranked 0 ls)"
  by (simp add: analyze_unfold Let_def loop_judgments initial_analysis_def)

lemma analyze_hoa_liens:
  "hoa_liens (snd (analyze_lien_priority ls))
     = filter (\<lambda>l. type l = ''LIEN'' \<and> is_hoa l = Some True) (ranked 0 ls)"
  by (simp add: analyze_unfold Let_def loop_hoa_liens initial_analysis_def)

lemma analyze_warnings:
  "warnings (snd (analyze_lien_priority ls))
     = map hoa_warning (filter (\<lambda>l. type l = ''LIEN'' \<and> is_hoa l = Some True) (ranked 0 ls))
       @ (if length (filter (\<lambda>l. type l = ''MTG'') ls) > 2
          then [multiple_mortgages_warning (length (filter (\<lambda>l. type l = ''MTG'') ls))] else [])"
  by (simp add: analyze_unfold Let_def loop_warnings loop_mortgages initial_analysis_def ranked_count_type)

lemma analyze_first_position:
  "first_position (snd (analyze_lien_priority ls))
     = (case ranked 0 ls of [] \<Rightarrow> None | l # _ \<Rightarrow> if type l = ''MTG'' then Some l else None)"
  by (simp add: analyze_unfold Let_def loop_first_position initial_analysis_def split: list.split)

lemma analyze_totals:
  "total_liens (snd (analyze_lien_priority ls)) = length ls"
  "total_encumbrance (snd (analyze_lien_priority ls)) = sum_list (map amount ls)"
  by (simp_all add: analyze_unfold Let_def loop_totals initial_analysis_def)


section \<open>HOA liens in the analysis\<close>

text \<open>
  Claim C10. In \<^verbatim>\<open>analyze_lien_priority\<close> the bucket \<^verbatim>\<open>hoa_liens\<close> holds exactly the
  records of type \<^verbatim>\<open>LIEN\<close> whose \<^verbatim>\<open>is_hoa\<close> is true, and the warnings of type
  \<^verbatim>\<open>HOA_FORECLOSURE_RISK\<close> are exactly the warnings of these records. A list of
  \<^verbatim>\<open>MTG\<close> and \<^verbatim>\<open>JUDG\<close> records gives an empty bucket and no such warning, whatever
  their \<^verbatim>\<open>is_hoa\<close> flags are.
\<close>

theorem hoa_bucket_only_liens:
  "hoa_liens (snd (analyze_lien_priority ls))
     = filter (\<lambda>l. type l = ''LIEN'' \<and> is_hoa l = Some True) (fst (analyze_lien_priority ls))
   \<and> filter (\<lambda>w. w_type w = ''HOA_FORECLOSURE_RISK'') (warnings (snd (analyze_lien_priority ls)))
     = map hoa_warning (hoa_liens (snd (analyze_lien_priority ls)))
   \<and> (\<forall>l \<in> set (hoa_liens (snd (analyze_lien_priority ls))). type l = ''LIEN'' \<and> is_hoa l = Some True)
   \<and> (\<forall>w \<in> set (warnings (snd (analyze_lien_priority ls))).
         w_type w = ''HOA_FORECLOSURE_RISK'' \<longrightarrow>
           (\<exists>l \<in> set (fst (analyze_lien_priority ls)).
              w = hoa_warning l \<and> type l = ''LIEN'' \<and> is_hoa l = Some True))
   \<and> ((\<forall>l \<in> set ls. type l = ''MTG'' \<or> type l = ''JUDG'') \<longrightarrow>
         hoa_liens (snd (analyze_lien_priority ls)) = []
         \<and> (\<forall>w \<in> set (warnings (snd (analyze_lien_priority ls))). w_type w \<noteq> ''HOA_FORECLOSURE_RISK''))"
proof -
  let ?P = "\<lambda>l. type l = ''LIEN'' \<and> is_hoa l = Some True"
  let ?H = "\<lambda>w. w_type w = ''HOA_FORECLOSURE_RISK''"
  have h: "\<And>xs. filter ?H (map hoa_warning xs) = map hoa_warning xs"
    by (simp add: hoa_warning_def)
  have m: "\<not> ?H (multiple_mortgages_warning n)" for n
    by (simp add: multiple_mortgages_warning_def)
  have a: "hoa_liens (snd (analyze_lien_priority ls)) = filter ?P (fst (analyze_lien_priority ls))"
    by (simp add: analyze_hoa_liens analyze_fst)
  have b: "filter ?H (warnings (snd (analyze_lien_priority ls)))
             = map hoa_warning (hoa_liens (snd (analyze_lien_priority ls)))"
    by (simp add: analyze_warnings analyze_hoa_liens h m)
  have c: "\<forall>l \<in> set (hoa_liens (snd (analyze_lien_priority ls))). ?P l"
    by (simp add: analyze_hoa_liens)
  have d: "\<forall>w \<in> set (warnings (snd (analyze_lien_priority ls))).
         ?H w \<longrightarrow> (\<exists>l \<in> set (fst (analyze_lien_priority ls)). w = hoa_warning l \<and> ?P l)"
  proof (intro ballI impI)
    fix w assume "w \<in> set (warnings (snd (analyze_lien_priority ls)))" and "?H w"
    then have "w \<in> set (filter ?H (warnings (snd (analyze_lien_priority ls))))" by simp
    then have "w \<in> set (map hoa_warning (filter ?P (fst (analyze_lien_priority ls))))"
      using a b by simp
    then show "\<exists>l \<in> set (fst (analyze_lien_priority ls)). w = hoa_warning l \<and> ?P l"
      by auto
  qed
  have e: "(\<forall>l \<in> set ls. type l = ''MTG'' \<or> type l = ''JUDG'') \<longrightarrow>
         hoa_liens (snd (analyze_lien_priority ls)) = []
         \<and> (\<forall>w \<in> set (warnings (snd (analyze_lien_priority ls))). \<not> ?H w)"
  proof
    assume t: "\<forall>l \<in> set ls. type l = ''MTG'' \<or> type l = ''JUDG''"
    have "\<not> ?P x" if "x \<in> set (ranked 0 ls)" for x
    proof -
      from ranked_set [OF that] obtain l where "l \<in> set ls" "type x = type l" by blast
      with t show ?thesis by auto
    qed
    then have f: "filter ?P (ranked 0 ls) = []" by (simp add: filter_empty_conv)
    then have "hoa_liens (snd (analyze_lien_priority ls)) = []"
      by (simp add: analyze_hoa_liens)
    moreover have "\<forall>w \<in> set (warnings (snd (analyze_lien_priority ls))). \<not> ?H w"
      by (simp add: analyze_warnings f m)
    ultimately show "hoa_liens (snd (analyze_lien_priority ls)) = []
         \<and> (\<forall>w \<in> set (warnings (snd (analyze_lien_priority ls))). \<not> ?H w)" by blast
  qed
  from a b c d e show ?thesis by blast
qed

lemmas analyze_eval = analyze_fst analyze_mortgages analyze_judgments analyze_hoa_liens
  analyze_warnings analyze_first_position analyze_totals

theorem hoa_bucket_only_liens_witness:
  "is_hoa (example_lien ''MTG'' ''COMMUNITY BANK'' ''01/15/2023'' 250000 (Some True)) = Some True
   \<and> is_hoa (example_lien ''JUDG'' ''SUNSET HOA'' ''02/20/2023'' 5000 (Some True)) = Some True
   \<and> hoa_liens (snd (analyze_lien_priority
        [example_lien ''MTG'' ''COMMUNITY BANK'' ''01/15/2023'' 250000 (Some True),
         example_lien ''JUDG'' ''SUNSET HOA'' ''02/20/2023'' 5000 (Some True)])) = []
   \<and> warnings (snd (analyze_lien_priority
        [example_lien ''MTG'' ''COMMUNITY BANK'' ''01/15/2023'' 250000 (Some True),
         example_lien ''JUDG'' ''SUNSET HOA'' ''02/20/2023'' 5000 (Some True)])) = []"
proof -
  let ?ls = "[example_lien ''MTG'' ''COMMUNITY BANK'' ''01/15/2023'' 250000 (Some True),
         example_lien ''JUDG'' ''SUNSET HOA'' ''02/20/2023'' 5000 (Some True)]"
  have t: "\<forall>l \<in> set ?ls. type l = ''MTG'' \<or> type l = ''JUDG''"
    by (simp add: example_lien_def)
  have w: "warnings (snd (analyze_lien_priority ?ls)) = []"
    by (simp add: analyze_warnings example_lien_def)
  have h: "hoa_liens (snd (analyze_lien_priority ?ls)) = []"
    using hoa_bucket_only_liens [of ?ls] t by blast
  have f1: "is_hoa (example_lien ''MTG'' ''COMMUNITY BANK'' ''01/15/2023'' 250000 (Some True)) = Some True"
    by (simp add: example_lien_def)
  have f2: "is_hoa (example_lien ''JUDG'' ''SUNSET HOA'' ''02/20/2023'' 5000 (Some True)) = Some True"
    by (simp add: example_lien_def)
  from f1 f2 h w show ?thesis by (intro conjI)
qed

section \<open>The combined result\<close>

lemma combine_ok:
  "success r \<Longrightarrow>
   combine_results now b r =
     CombineOk
       (let lns = documents_of r;
            hoa = filter (\<lambda>lien. get_or False (hoa_lien lien)) lns;
            encumbrance_sum = sum_list (map (\<lambda>lien. get_or 0 (doc_amount lien)) lns);
            mtgs = filter (\<lambda>lien. document_type lien = ''MTG'') lns;
            arv = max (get_or 0 (assessed_value b)) (get_or 0 (just_value b));
            max_bid_equity = (arv * (70 / 100)) - encumbrance_sum - 10000
        in \<lparr>timestamp = now,
             p_parcel_id = parcel_id b,
             p_address = address b,
             p_owner_name = owner_name b,
             p_assessed_value = get_or 0 (assessed_value b),
             p_just_value = get_or 0 (just_value b),
             p_living_area = get_or 0 (living_area b),
             p_year_built = get_or 0 (year_built b),
             la_total_liens = length lns,
             la_total_encumbrance = encumbrance_sum,
             la_mortgages = length mtgs,
             la_other_liens = length (filter (\<lambda>lien. document_type lien = ''LIEN'') lns),
             la_judgments = length (filter (\<lambda>lien. document_type lien = ''JUDG'') lns),
             la_hoa_liens = length hoa,
             la_first_position = (case mtgs of [] \<Rightarrow> None | m # _ \<Rightarrow> Some m),
             all_liens = lns,
             ia_arv = arv,
             ia_max_bid_equity_70pct = max_bid_equity,
             ia_recommendation =
               (if hoa \<noteq> [] then ''SKIP'' else if max_bid_equity < 10000 then ''SKIP''
                else if length mtgs > 2 then ''REVIEW'' else ''BID''),
             ia_reason =
               (if hoa \<noteq> [] then ''HOA foreclosure risk - may wipe senior mortgages''
                else if max_bid_equity < 10000 then ''Insufficient equity after liens''
                else if length mtgs > 2 then ''Complex title - verify lien priority with attorney''
                else ''Acceptable lien structure and equity position''),
             ia_warnings =
               (if hoa \<noteq> [] then [hoa_risk_warning hoa] else [])
               @ (if length mtgs > 2 then [complex_title_warning (length mtgs)] else [])
               @ (if max_bid_equity < 10000 then [insufficient_equity_warning max_bid_equity] else []),
             md_credits_used = get_or ''unknown'' (credits_used r)\<rparr>)"
  by (simp add: combine_results_def documents_of_def Let_def)




section \<open>Total encumbrance\<close>





section \<open>The empty record set\<close>

text \<open>
  Claim C8. The empty list is analysed without an error: every count is zero, the total
  encumbrance is 0, there is no warning and no first position. With no documents and a
  valuation whose just value is 50000 (and whose assessed value is absent or not larger),
  \<^verbatim>\<open>_combine_results\<close> gives the equity 25000 and the recommendation \<^verbatim>\<open>BID\<close>.
\<close>

theorem empty_record_set:
  "analyze_lien_priority []
     = ([], \<lparr>total_liens = 0, total_encumbrance = 0, first_position = None, hoa_liens = [],
             mortgages = [], judgments = [], warnings = [], encumbrance_summary = None\<rparr>)
   \<and> (success r \<and> documents_of r = [] \<and> just_value b = Some 50000 \<and> get_or 0 (assessed_value b) \<le> 50000
        \<longrightarrow> (\<exists>c. combine_results now b r = CombineOk c
               \<and> la_total_liens c = 0 \<and> la_mortgages c = 0 \<and> la_other_liens c = 0
               \<and> la_judgments c = 0 \<and> la_hoa_liens c = 0
               \<and> la_total_encumbrance c = 0 \<and> la_first_position c = None \<and> ia_warnings c = []
               \<and> ia_arv c = 50000 \<and> ia_max_bid_equity_70pct c = 25000
               \<and> ia_recommendation c = ''BID''
               \<and> ia_reason c = ''Acceptable lien structure and equity position''))"
proof -
  have a: "analyze_lien_priority []
     = ([], \<lparr>total_liens = 0, total_encumbrance = 0, first_position = None, hoa_liens = [],
             mortgages = [], judgments = [], warnings = [], encumbrance_summary = None\<rparr>)"
    by (simp add: analyze_lien_priority_def)
  have b: "success r \<and> documents_of r = [] \<and> just_value b = Some 50000 \<and> get_or 0 (assessed_value b) \<le> 50000
        \<longrightarrow> (\<exists>c. combine_results now b r = CombineOk c
               \<and> la_total_liens c = 0 \<and> la_mortgages c = 0 \<and> la_other_liens c = 0
               \<and> la_judgments c = 0 \<and> la_hoa_liens c = 0
               \<and> la_total_encumbrance c = 0 \<and> la_first_position c = None \<and> ia_warnings c = []
               \<and> ia_arv c = 50000 \<and> ia_max_bid_equity_70pct c = 25000
               \<and> ia_recommendation c = ''BID''
               \<and> ia_reason c = ''Acceptable lien structure and equity position'')"
    by (simp add: combine_ok Let_def get_or_def max_def)
  show ?thesis by (intro conjI a b)
qed

theorem empty_record_set_witness:
  "success (example_acclaimweb []) \<and> documents_of (example_acclaimweb []) = []
   \<and> just_value (example_bcpao None (Some 50000)) = Some 50000
   \<and> get_or 0 (assessed_value (example_bcpao None (Some 50000))) \<le> 50000
   \<and> (case combine_results ''2024-01-01T00:00:00'' (example_bcpao None (Some 50000)) (example_acclaimweb []) of
         CombineOk c \<Rightarrow>
           la_total_liens c = 0 \<and> la_total_encumbrance c = 0 \<and> ia_warnings c = []
           \<and> ia_max_bid_equity_70pct c = 25000 \<and> ia_recommendation c = ''BID''
       | CombineFailed e d f \<Rightarrow> False)"
proof -
  let ?r = "example_acclaimweb []"
  let ?b = "example_bcpao None (Some 50000)"
  have h1: "success ?r" by (simp add: example_acclaimweb_def)
  have h2: "documents_of ?r = []" by (simp add: example_acclaimweb_def documents_of_def get_or_def)
  have h3: "just_value ?b = Some 50000" by (simp add: example_bcpao_def)
  have h4: "get_or 0 (assessed_value ?b) \<le> 50000" by (simp add: example_bcpao_def get_or_def)
  have h: "success ?r \<and> documents_of ?r = [] \<and> just_value ?b = Some 50000
           \<and> get_or 0 (assessed_value ?b) \<le> 50000"
    by (intro conjI h1 h2 h3 h4)
  from empty_record_set [of ?r ?b "''2024-01-01T00:00:00''", THEN conjunct2, THEN mp, OF h]
  obtain c where c: "combine_results ''2024-01-01T00:00:00'' ?b ?r = CombineOk c"
    and f: "la_total_liens c = 0" "la_total_encumbrance c = 0" "ia_warnings c = []"
    "ia_max_bid_equity_70pct c = 25000" "ia_recommendation c = ''BID''"
    by blast
  have k: "(case CombineOk c of
         CombineOk c \<Rightarrow>
           la_total_liens c = 0 \<and> la_total_encumbrance c = 0 \<and> ia_warnings c = []
           \<and> ia_max_bid_equity_70pct c = 25000 \<and> ia_recommendation c = ''BID''
       | CombineFailed e d f \<Rightarrow> False)"
    by (simp only: combine_result.case f simp_thms)
  show ?thesis
    apply (intro conjI h1 h2 h3 h4)
    apply (subst c)
    apply (rule k)
    done
qed

section \<open>First position\<close>










section \<open>Warnings of the two analyses\<close>

lemma get_or_hoa: "(\<lambda>d. get_or False (hoa_lien d)) = (\<lambda>d. hoa_lien d = Some True)"
  by (auto simp: get_or_def fun_eq_iff split: option.splits)

lemma combine_fields:
  assumes "success r"
  shows "\<exists>c. combine_results now b r = CombineOk c
     \<and> la_hoa_liens c = length (filter (\<lambda>d. hoa_lien d = Some True) (documents_of r))
     \<and> la_mortgages c = length (filter (\<lambda>d. document_type d = ''MTG'') (documents_of r))
     \<and> la_total_encumbrance c = sum_list (map (\<lambda>d. get_or 0 (doc_amount d)) (documents_of r))
     \<and> ia_arv c = max (get_or 0 (assessed_value b)) (get_or 0 (just_value b))
     \<and> ia_max_bid_equity_70pct c = ia_arv c * (70 / 100) - la_total_encumbrance c - 10000
     \<and> ia_warnings c
        = (if la_hoa_liens c > 0
           then [hoa_risk_warning (filter (\<lambda>d. hoa_lien d = Some True) (documents_of r))] else [])
          @ (if la_mortgages c > 2 then [complex_title_warning (la_mortgages c)] else [])
          @ (if ia_max_bid_equity_70pct c < 10000
             then [insufficient_equity_warning (ia_max_bid_equity_70pct c)] else [])"
  using assms by (simp add: combine_ok Let_def get_or_hoa)

lemma warning_fields:
  "w_type (hoa_warning l) = ''HOA_FORECLOSURE_RISK''"
  "severity (hoa_warning l) = None"
  "carried (hoa_warning l) = LienRef l"
  "w_type (multiple_mortgages_warning n) = ''MULTIPLE_MORTGAGES''"
  "severity (multiple_mortgages_warning n) = None"
  "carried (multiple_mortgages_warning n) = Count n"
  "w_type (hoa_risk_warning h) = ''HOA_FORECLOSURE_RISK''"
  "severity (hoa_risk_warning h) = Some ''CRITICAL''"
  "carried (hoa_risk_warning h) = HoaLiens h"
  "w_type (complex_title_warning n) = ''COMPLEX_TITLE''"
  "severity (complex_title_warning n) = Some ''MEDIUM''"
  "w_type (insufficient_equity_warning e) = ''INSUFFICIENT_EQUITY''"
  "severity (insufficient_equity_warning e) = Some ''HIGH''"
  by (simp_all add: hoa_warning_def multiple_mortgages_warning_def hoa_risk_warning_def
        complex_title_warning_def insufficient_equity_warning_def)

text \<open>
  Claim C4 as stated fails on both functions. In \<^verbatim>\<open>analyze_lien_priority\<close> a mortgage
  whose creditor is flagged by the classifier (\<^verbatim>\<open>COMMUNITY BANK\<close>) raises no warning,
  as the warning is built in the branch for type \<^verbatim>\<open>LIEN\<close> only. In
  \<^verbatim>\<open>_combine_results\<close> two flagged documents raise one warning of type
  \<^verbatim>\<open>HOA_FORECLOSURE_RISK\<close>, not two, and a third kind of warning,
  \<^verbatim>\<open>INSUFFICIENT_EQUITY\<close>, follows it.
\<close>

theorem warnings_counterexample:
  "is_hoa (detect_hoa (example_lien ''MTG'' ''COMMUNITY BANK'' ''01/15/2023'' 250000 None)) = Some True
   \<and> warnings (snd (analyze_lien_priority
        [detect_hoa (example_lien ''MTG'' ''COMMUNITY BANK'' ''01/15/2023'' 250000 None)])) = []
   \<and> length (filter (\<lambda>d. hoa_lien d = Some True)
        [example_document ''LIEN'' ''SUNSET HOA'' ''02/20/2023'' 5000 True,
         example_document ''LIEN'' ''PARKVIEW HOA'' ''03/20/2023'' 3000 True]) = 2
   \<and> (case combine_results ''2024-01-01T00:00:00'' (example_bcpao None (Some 10000))
             (example_acclaimweb
               [example_document ''LIEN'' ''SUNSET HOA'' ''02/20/2023'' 5000 True,
                example_document ''LIEN'' ''PARKVIEW HOA'' ''03/20/2023'' 3000 True]) of
         CombineOk c \<Rightarrow>
           map w_type (ia_warnings c) = [''HOA_FORECLOSURE_RISK'', ''INSUFFICIENT_EQUITY'']
       | CombineFailed e d f \<Rightarrow> False)"
proof -
  let ?docs = "[example_document ''LIEN'' ''SUNSET HOA'' ''02/20/2023'' 5000 True,
                example_document ''LIEN'' ''PARKVIEW HOA'' ''03/20/2023'' 3000 True]"
  let ?r = "example_acclaimweb ?docs"
  let ?b = "example_bcpao None (Some 10000)"
  let ?now = "''2024-01-01T00:00:00''"
  have a: "is_hoa (detect_hoa (example_lien ''MTG'' ''COMMUNITY BANK'' ''01/15/2023'' 250000 None)) = Some True"
    by (simp add: hoa_eval example_lien_def)
  have ty: "type (detect_hoa (example_lien ''MTG'' ''COMMUNITY BANK'' ''01/15/2023'' 250000 None)) = ''MTG''"
    by (simp add: detect_hoa_def example_lien_def)
  have b: "warnings (snd (analyze_lien_priority
        [detect_hoa (example_lien ''MTG'' ''COMMUNITY BANK'' ''01/15/2023'' 250000 None)])) = []"
    by (simp add: analyze_warnings ty)
  have c: "length (filter (\<lambda>d. hoa_lien d = Some True) ?docs) = 2"
    by (simp add: example_document_def)
  have m: "length (filter (\<lambda>d. document_type d = ''MTG'') ?docs) = 0"
    by (simp add: example_document_def)
  have s: "sum_list (map (\<lambda>d. get_or 0 (doc_amount d)) ?docs) = 8000"
    by (simp add: example_document_def get_or_def)
  have v: "max (get_or 0 (assessed_value ?b)) (get_or 0 (just_value ?b)) = 10000"
    by (simp add: example_bcpao_def get_or_def)
  have h: "success ?r" by (simp add: example_acclaimweb_def)
  have docs: "documents_of ?r = ?docs"
    by (simp add: documents_of_def example_acclaimweb_def get_or_def)
  obtain x where xx: "combine_results ?now ?b ?r = CombineOk x
     \<and> la_hoa_liens x = length (filter (\<lambda>d. hoa_lien d = Some True) (documents_of ?r))
     \<and> la_mortgages x = length (filter (\<lambda>d. document_type d = ''MTG'') (documents_of ?r))
     \<and> la_total_encumbrance x = sum_list (map (\<lambda>d. get_or 0 (doc_amount d)) (documents_of ?r))
     \<and> ia_arv x = max (get_or 0 (assessed_value ?b)) (get_or 0 (just_value ?b))
     \<and> ia_max_bid_equity_70pct x = ia_arv x * (70 / 100) - la_total_encumbrance x - 10000
     \<and> ia_warnings x
        = (if la_hoa_liens x > 0
           then [hoa_risk_warning (filter (\<lambda>d. hoa_lien d = Some True) (documents_of ?r))] else [])
          @ (if la_mortgages x > 2 then [complex_title_warning (la_mortgages x)] else [])
          @ (if ia_max_bid_equity_70pct x < 10000
             then [insufficient_equity_warning (ia_max_bid_equity_70pct x)] else [])"
    using combine_fields [OF h, of ?now ?b] by (rule exE)
  note x = xx [THEN conjunct1]
  have 1: "la_hoa_liens x = 2"
    using xx [THEN conjunct2, THEN conjunct1] unfolding docs c .
  have 2: "la_mortgages x = 0"
    using xx [THEN conjunct2, THEN conjunct2, THEN conjunct1] unfolding docs m .
  have 3: "la_total_encumbrance x = 8000"
    using xx [THEN conjunct2, THEN conjunct2, THEN conjunct2, THEN conjunct1] unfolding docs s .
  have 4: "ia_arv x = 10000"
    using xx [THEN conjunct2, THEN conjunct2, THEN conjunct2, THEN conjunct2, THEN conjunct1] unfolding v .
  have 5: "ia_max_bid_equity_70pct x = - 11000"
    using xx [THEN conjunct2, THEN conjunct2, THEN conjunct2, THEN conjunct2, THEN conjunct2, THEN conjunct1]
    unfolding 3 4 by simp
  have 6: "map w_type (ia_warnings x) = [''HOA_FORECLOSURE_RISK'', ''INSUFFICIENT_EQUITY'']"
    using xx [THEN conjunct2, THEN conjunct2, THEN conjunct2, THEN conjunct2, THEN conjunct2, THEN conjunct2]
    unfolding 1 2 5 by (simp add: warning_fields)
  have k: "(case CombineOk x of
         CombineOk c \<Rightarrow>
           map w_type (ia_warnings c) = [''HOA_FORECLOSURE_RISK'', ''INSUFFICIENT_EQUITY'']
       | CombineFailed e d f \<Rightarrow> False)"
    by (simp only: combine_result.case 6)
  show ?thesis
    apply (intro conjI a b c)
    apply (subst x)
    apply (rule k)
    done
qed

text \<open>
  Claim C4, amended. \<^verbatim>\<open>analyze_lien_priority\<close> produces one warning of type
  \<^verbatim>\<open>HOA_FORECLOSURE_RISK\<close> for each record of type \<^verbatim>\<open>LIEN\<close> whose \<^verbatim>\<open>is_hoa\<close> is
  true, in the order of the list and carrying the record, and after them one warning of
  type \<^verbatim>\<open>MULTIPLE_MORTGAGES\<close> carrying the mortgage count when the mortgage bucket has
  more than two entries; these warnings have no severity. \<^verbatim>\<open>_combine_results\<close>
  produces, each on its own condition and in this order, one \<^verbatim>\<open>HOA_FORECLOSURE_RISK\<close>
  warning of severity \<^verbatim>\<open>CRITICAL\<close> carrying all flagged documents when there is at
  least one, one \<^verbatim>\<open>COMPLEX_TITLE\<close> warning of severity \<^verbatim>\<open>MEDIUM\<close> when there are more
  than two mortgages, and one \<^verbatim>\<open>INSUFFICIENT_EQUITY\<close> warning of severity \<^verbatim>\<open>HIGH\<close>
  when the equity is below 10000.
\<close>

theorem warnings_produced:
  "warnings (snd (analyze_lien_priority ls))
     = map hoa_warning
         (filter (\<lambda>l. type l = ''LIEN'' \<and> is_hoa l = Some True) (fst (analyze_lien_priority ls)))
       @ (if length (mortgages (snd (analyze_lien_priority ls))) > 2
          then [multiple_mortgages_warning (length (mortgages (snd (analyze_lien_priority ls))))]
          else [])
   \<and> w_type (hoa_warning l) = ''HOA_FORECLOSURE_RISK''
   \<and> severity (hoa_warning l) = None
   \<and> carried (hoa_warning l) = LienRef l
   \<and> w_type (multiple_mortgages_warning n) = ''MULTIPLE_MORTGAGES''
   \<and> severity (multiple_mortgages_warning n) = None
   \<and> carried (multiple_mortgages_warning n) = Count n
   \<and> (success r \<longrightarrow>
        (\<exists>c. combine_results now b r = CombineOk c
           \<and> ia_warnings c
              = (if la_hoa_liens c > 0
                 then [hoa_risk_warning (filter (\<lambda>d. hoa_lien d = Some True) (documents_of r))]
                 else [])
                @ (if la_mortgages c > 2 then [complex_title_warning (la_mortgages c)] else [])
                @ (if ia_max_bid_equity_70pct c < 10000
                   then [insufficient_equity_warning (ia_max_bid_equity_70pct c)] else [])))
   \<and> w_type (hoa_risk_warning h) = ''HOA_FORECLOSURE_RISK''
   \<and> severity (hoa_risk_warning h) = Some ''CRITICAL''
   \<and> carried (hoa_risk_warning h) = HoaLiens h
   \<and> w_type (complex_title_warning n) = ''COMPLEX_TITLE''
   \<and> severity (complex_title_warning n) = Some ''MEDIUM''
   \<and> w_type (insufficient_equity_warning e) = ''INSUFFICIENT_EQUITY''
   \<and> severity (insufficient_equity_warning e) = Some ''HIGH''"
proof -
  have a: "warnings (snd (analyze_lien_priority ls))
     = map hoa_warning
         (filter (\<lambda>l. type l = ''LIEN'' \<and> is_hoa l = Some True) (fst (analyze_lien_priority ls)))
       @ (if length (mortgages (snd (analyze_lien_priority ls))) > 2
          then [multiple_mortgages_warning (length (mortgages (snd (analyze_lien_priority ls))))]
          else [])"
    by (simp only: analyze_warnings analyze_fst analyze_mortgages ranked_count_type)
  have c: "success r \<longrightarrow>
        (\<exists>c. combine_results now b r = CombineOk c
           \<and> ia_warnings c
              = (if la_hoa_liens c > 0
                 then [hoa_risk_warning (filter (\<lambda>d. hoa_lien d = Some True) (documents_of r))]
                 else [])
                @ (if la_mortgages c > 2 then [complex_title_warning (la_mortgages c)] else [])
                @ (if ia_max_bid_equity_70pct c < 10000
                   then [insufficient_equity_warning (ia_max_bid_equity_70pct c)] else []))"
  proof
    assume "success r"
    from combine_fields [OF this, of now b] obtain c where
      "combine_results now b r = CombineOk c"
      "ia_warnings c
              = (if la_hoa_liens c > 0
                 then [hoa_risk_warning (filter (\<lambda>d. hoa_lien d = Some True) (documents_of r))]
                 else [])
                @ (if la_mortgages c > 2 then [complex_title_warning (la_mortgages c)] else [])
                @ (if ia_max_bid_equity_70pct c < 10000
                   then [insufficient_equity_warning (ia_max_bid_equity_70pct c)] else [])"
      by (elim exE conjE)
    then show "\<exists>c. combine_results now b r = CombineOk c
           \<and> ia_warnings c
              = (if la_hoa_liens c > 0
                 then [hoa_risk_warning (filter (\<lambda>d. hoa_lien d = Some True) (documents_of r))]
                 else [])
                @ (if la_mortgages c > 2 then [complex_title_warning (la_mortgages c)] else [])
                @ (if ia_max_bid_equity_70pct c < 10000
                   then [insufficient_equity_warning (ia_max_bid_equity_70pct c)] else [])"
      by (intro exI conjI)
  qed
  show ?thesis by (intro conjI a c warning_fields)
qed


theorem warnings_produced_witness:
  "warnings (snd (analyze_lien_priority
       [example_lien ''MTG'' ''BANK A'' ''01/01/2021'' 200000 (Some False),
        example_lien ''MTG'' ''BANK B'' ''01/01/2022'' 50000 (Some False),
        example_lien ''MTG'' ''BANK C'' ''01/01/2023'' 25000 (Some False)]))
     = [multiple_mortgages_warning 3]
   \<and> success (example_acclaimweb
       [example_document ''MTG'' ''BANK A'' ''01/01/2021'' 200000 False,
        example_document ''MTG'' ''BANK B'' ''01/01/2022'' 50000 False,
        example_document ''MTG'' ''BANK C'' ''01/01/2023'' 25000 False])
   \<and> (case combine_results ''2024-01-01T00:00:00'' (example_bcpao None (Some 1000000))
             (example_acclaimweb
               [example_document ''MTG'' ''BANK A'' ''01/01/2021'' 200000 False,
                example_document ''MTG'' ''BANK B'' ''01/01/2022'' 50000 False,
                example_document ''MTG'' ''BANK C'' ''01/01/2023'' 25000 False]) of
         CombineOk c \<Rightarrow> ia_warnings c = [complex_title_warning 3]
       | CombineFailed e d f \<Rightarrow> False)"
proof -
  let ?ls = "[example_lien ''MTG'' ''BANK A'' ''01/01/2021'' 200000 (Some False),
        example_lien ''MTG'' ''BANK B'' ''01/01/2022'' 50000 (Some False),
        example_lien ''MTG'' ''BANK C'' ''01/01/2023'' 25000 (Some False)]"
  let ?docs = "[example_document ''MTG'' ''BANK A'' ''01/01/2021'' 200000 False,
        example_document ''MTG'' ''BANK B'' ''01/01/2022'' 50000 False,
        example_document ''MTG'' ''BANK C'' ''01/01/2023'' 25000 False]"
  let ?r = "example_acclaimweb ?docs"
  let ?b = "example_bcpao None (Some 1000000)"
  let ?now = "''2024-01-01T00:00:00''"
  note t = warnings_produced [where ls = ?ls and r = ?r and now = ?now and b = ?b]
  have a: "warnings (snd (analyze_lien_priority ?ls)) = [multiple_mortgages_warning 3]"
    using t [THEN conjunct1] by (simp add: analyze_fst analyze_mortgages example_lien_def numeral_3_eq_3)
  have h: "success ?r" by (simp add: example_acclaimweb_def)
  have docs: "documents_of ?r = ?docs"
    by (simp add: documents_of_def example_acclaimweb_def get_or_def)
  obtain x where xx: "combine_results ?now ?b ?r = CombineOk x
           \<and> ia_warnings x
              = (if la_hoa_liens x > 0
                 then [hoa_risk_warning (filter (\<lambda>d. hoa_lien d = Some True) (documents_of ?r))]
                 else [])
                @ (if la_mortgages x > 2 then [complex_title_warning (la_mortgages x)] else [])
                @ (if ia_max_bid_equity_70pct x < 10000
                   then [insufficient_equity_warning (ia_max_bid_equity_70pct x)] else [])"
    using t [THEN conjunct2, THEN conjunct2, THEN conjunct2, THEN conjunct2, THEN conjunct2,
             THEN conjunct2, THEN conjunct2, THEN conjunct1, THEN mp, OF h]
    by (rule exE)
  note x = xx [THEN conjunct1]
  obtain y where yy: "combine_results ?now ?b ?r = CombineOk y
     \<and> la_hoa_liens y = length (filter (\<lambda>d. hoa_lien d = Some True) (documents_of ?r))
     \<and> la_mortgages y = length (filter (\<lambda>d. document_type d = ''MTG'') (documents_of ?r))
     \<and> la_total_encumbrance y = sum_list (map (\<lambda>d. get_or 0 (doc_amount d)) (documents_of ?r))
     \<and> ia_arv y = max (get_or 0 (assessed_value ?b)) (get_or 0 (just_value ?b))
     \<and> ia_max_bid_equity_70pct y = ia_arv y * (70 / 100) - la_total_encumbrance y - 10000
     \<and> ia_warnings y
        = (if la_hoa_liens y > 0
           then [hoa_risk_warning (filter (\<lambda>d. hoa_lien d = Some True) (documents_of ?r))] else [])
          @ (if la_mortgages y > 2 then [complex_title_warning (la_mortgages y)] else [])
          @ (if ia_max_bid_equity_70pct y < 10000
             then [insufficient_equity_warning (ia_max_bid_equity_70pct y)] else [])"
    using combine_fields [OF h, of ?now ?b] by (rule exE)
  have "CombineOk y = CombineOk x"
    using yy [THEN conjunct1] x by (rule trans [OF sym])
  then have yx: "y = x" by (simp only: combine_result.inject)
  note f = yy [unfolded yx docs]
  have 1: "la_hoa_liens x = 0"
    using f [THEN conjunct2, THEN conjunct1] by (simp add: example_document_def)
  have 2: "la_mortgages x = 3"
    using f [THEN conjunct2, THEN conjunct2, THEN conjunct1] by (simp add: example_document_def numeral_3_eq_3)
  have 3: "la_total_encumbrance x = 275000"
    using f [THEN conjunct2, THEN conjunct2, THEN conjunct2, THEN conjunct1]
    by (simp add: example_document_def get_or_def)
  have 4: "ia_arv x = 1000000"
    using f [THEN conjunct2, THEN conjunct2, THEN conjunct2, THEN conjunct2, THEN conjunct1]
    by (simp add: example_bcpao_def get_or_def)
  have 5: "ia_max_bid_equity_70pct x = 415000"
    using f [THEN conjunct2, THEN conjunct2, THEN conjunct2, THEN conjunct2, THEN conjunct2, THEN conjunct1]
    unfolding 3 4 by simp
  have 6: "ia_warnings x = [complex_title_warning 3]"
    using xx [THEN conjunct2] unfolding 1 2 5 by simp
  have k: "(case CombineOk x of
         CombineOk c \<Rightarrow> ia_warnings c = [complex_title_warning 3]
       | CombineFailed e d f \<Rightarrow> False)"
    by (simp only: combine_result.case 6)
  show ?thesis
    apply (intro conjI a h)
    apply (subst x)
    apply (rule k)
    done
qed

end
